theory Spec2Isabelle
  imports Complex_Main
begin

section \<open>The HLS video player widget (web/src/components/player/HlsVideoPlayer.tsx)\<close>

text \<open>
  The component is a React function component. Its state hooks, its two refs and the part of
  the media element it reads or writes are gathered in one record; every handler and every
  effect of the source is a function from that record to the updated record. JavaScript
  numbers (times, rates, coordinates) are modelled as reals: the only arithmetic of the
  component is one addition, one \<open>Math.max\<close> and comparisons. Events are handled one at
  a time, each after the render caused by the one before, so a handler reads the current
  values of the state hooks. Calls into the parent's callback props (\<open>onTimeUpdate\<close>,
  \<open>onPlaying\<close>, \<open>onPlayerLoaded\<close>, \<open>onClipEnded\<close>, \<open>setFullResolution\<close>, \<open>setFullscreen\<close>)
  change nothing of the widget and are left out.
\<close>

subsection \<open>The media sink and the streaming engine\<close>

text \<open>The \<open>DOMRect\<close> returned by \<open>getBoundingClientRect()\<close>.\<close>

record rect =
  rect_left :: real
  rect_right :: real
  rect_top :: real
  rect_bottom :: real

text \<open>
  The fields of the \<open>HTMLVideoElement\<close> the component touches. \<open>canPlayHls\<close> is the
  truthiness of \<open>canPlayType(HLS_MIME_TYPE)\<close> (a non-empty answer).
\<close>

record video =
  src :: string
  playbackRate :: real
  defaultPlaybackRate :: real
  currentTime :: real
  paused :: bool
  volume :: real
  canPlayHls :: bool
  boundingClientRect :: rect

text \<open>An instance of the hls.js engine: whether media is attached, and the sources it was told to load.\<close>

record hls =
  mediaAttached :: bool
  loadedSources :: "string list"

definition new_Hls :: hls where
  "new_Hls = \<lparr>mediaAttached = False, loadedSources = []\<rparr>"

text \<open>
  What the component cannot decide itself: the device classification of react-device-detect,
  \<open>Hls.isSupported()\<close>, and what the browser and the engine do to the media element when the
  component calls \<open>load()\<close>, \<open>attachMedia\<close> and \<open>loadSource\<close>. These are parameters, so every
  theorem below holds for any behaviour of the browser and of the engine.
\<close>

record platform =
  isAndroid :: bool
  isDesktop :: bool
  isMobile :: bool
  Hls_isSupported :: bool
  video_load :: "video \<Rightarrow> video"
  Hls_attachMedia :: "video \<Rightarrow> video"
  Hls_loadSource :: "string \<Rightarrow> video \<Rightarrow> video"

text \<open>
  The load algorithm of the HTML standard sets \<open>playbackRate\<close> to \<open>defaultPlaybackRate\<close>
  and pauses the element; a browser following the standard behaves like this on \<open>load()\<close>.
\<close>

definition html_load :: "video \<Rightarrow> video" where
  "html_load v = v\<lparr>playbackRate := defaultPlaybackRate v, paused := True\<rparr>"

subsection \<open>Constants of the module\<close>

definition USE_NATIVE_HLS :: "platform \<Rightarrow> bool" where
  "USE_NATIVE_HLS p = (\<not> isAndroid p)"

definition MEDIA_ERR_ABORTED :: nat where "MEDIA_ERR_ABORTED = 1"
definition MEDIA_ERR_NETWORK :: nat where "MEDIA_ERR_NETWORK = 2"
definition MEDIA_ERR_DECODE :: nat where "MEDIA_ERR_DECODE = 3"
definition MEDIA_ERR_SRC_NOT_SUPPORTED :: nat where "MEDIA_ERR_SRC_NOT_SUPPORTED = 4"

definition unsupportedErrorCodes :: "nat list" where
  "unsupportedErrorCodes = [MEDIA_ERR_SRC_NOT_SUPPORTED, MEDIA_ERR_DECODE]"

subsection \<open>Notifications and the frame upload\<close>

text \<open>A call of the toast library: the function called (\<open>toast.success\<close>, \<open>toast.error\<close>) and the text.\<close>

datatype toast_kind = Toast_success | Toast_error

record toast =
  kind :: toast_kind
  message :: string

record axios_response =
  status :: nat

text \<open>What awaiting a promise gives: its value, or the exception it was rejected with.\<close>

datatype 'a awaited = Fulfilled 'a | Rejected

text \<open>
  The optional prop \<open>onUploadFrame\<close>: from the play time to a promise of a response, or to
  \<open>undefined\<close> (the inner \<open>option\<close>).
\<close>

type_synonym upload_prop = "(real \<Rightarrow> axios_response option awaited) option"

subsection \<open>The widget\<close>

text \<open>
  Props (\<open>visible\<close>, \<open>currentSource\<close>), refs, state hooks, and the environment the handlers act
  on: a clock in milliseconds with the pending timers \<open>(id, due time)\<close>, the toasts emitted so
  far, and the number of \<open>new Hls()\<close> calls made.
\<close>

record widget =
  visible :: bool
  currentSource :: string
  videoRef :: "video option"
  hlsRef :: "hls option"
  useHlsCompat :: bool
  loadedMetadata :: bool
  isPlaying :: bool
  playerMuted :: bool
  playerVolume :: real
  mobileCtrlTimeout :: "nat option"
  controls :: bool
  controlsOpen :: bool
  now :: nat
  timers :: "(nat \<times> nat) list"
  nextTimerId :: nat
  toasts :: "toast list"
  hlsConstructed :: nat

text \<open>The state of the first render: the initial values of the hooks; timer ids start at 1.\<close>

definition init_widget :: "platform \<Rightarrow> bool \<Rightarrow> string \<Rightarrow> video option \<Rightarrow> widget" where
  "init_widget p vis source v =
     \<lparr>visible = vis, currentSource = source, videoRef = v, hlsRef = None,
      useHlsCompat = False, loadedMetadata = False, isPlaying = True,
      playerMuted = True, playerVolume = 1, mobileCtrlTimeout = None,
      controls = isMobile p, controlsOpen = False,
      now = 0, timers = [], nextTimerId = 1, toasts = [], hlsConstructed = 0\<rparr>"

subsection \<open>Effects\<close>

text \<open>Lines 75-85: the effect that picks the initial playback mode.\<close>

definition initial_mode_effect :: "platform \<Rightarrow> widget \<Rightarrow> widget" where
  "initial_mode_effect p w =
     (case videoRef w of
        None \<Rightarrow> w
      | Some v \<Rightarrow>
          if USE_NATIVE_HLS p \<and> canPlayHls v then w
          else if Hls_isSupported p then w\<lparr>useHlsCompat := True\<rparr>
          else w)"

text \<open>
  Lines 87-107: the effect run when \<open>useHlsCompat\<close> or \<open>currentSource\<close> changes. The two
  values are those of the render that scheduled the effect, so they are arguments.
\<close>

definition source_effect :: "platform \<Rightarrow> bool \<Rightarrow> string \<Rightarrow> widget \<Rightarrow> widget" where
  "source_effect p useCompat source w =
     (case videoRef w of
        None \<Rightarrow> w
      | Some v \<Rightarrow>
          let currentPlaybackRate = playbackRate v in
          if \<not> useCompat then w\<lparr>videoRef := Some (video_load p (v\<lparr>src := source\<rparr>))\<rparr>
          else
            let w1 = (case hlsRef w of
                        None \<Rightarrow> w\<lparr>hlsRef := Some (new_Hls\<lparr>mediaAttached := True\<rparr>),
                                   videoRef := Some (Hls_attachMedia p v),
                                   hlsConstructed := Suc (hlsConstructed w)\<rparr>
                      | Some h \<Rightarrow> w);
                w2 = w1\<lparr>hlsRef := map_option (\<lambda>h. h\<lparr>loadedSources := loadedSources h @ [source]\<rparr>) (hlsRef w1),
                        videoRef := map_option (Hls_loadSource p source) (videoRef w1)\<rparr>
            in w2\<lparr>videoRef := map_option (\<lambda>v2. v2\<lparr>playbackRate := currentPlaybackRate\<rparr>) (videoRef w2)\<rparr>)"

text \<open>
  React runs the source effect again after a render in which one of its dependencies
  (\<open>useHlsCompat\<close>, \<open>currentSource\<close>; the two refs never change identity) differs from the
  previous render.
\<close>

definition commit :: "platform \<Rightarrow> widget \<Rightarrow> widget \<Rightarrow> widget" where
  "commit p rendered w =
     (if useHlsCompat w = useHlsCompat rendered \<and> currentSource w = currentSource rendered
      then w
      else source_effect p (useHlsCompat w) (currentSource w) w)"

text \<open>
  Mounting: both effects run with the values of the first render, in the order of the
  source; the state change of the first one causes a second render, which runs the source
  effect again.
\<close>

definition mount :: "platform \<Rightarrow> widget \<Rightarrow> widget" where
  "mount p w =
     commit p w (source_effect p (useHlsCompat w) (currentSource w) (initial_mode_effect p w))"

subsection \<open>Control visibility\<close>

text \<open>Lines 123-140: the \<open>mousemove\<close> listener, registered on desktop only.\<close>

definition inside :: "real \<Rightarrow> real \<Rightarrow> rect \<Rightarrow> bool" where
  "inside clientX clientY r =
     (clientX > rect_left r \<and> clientX < rect_right r \<and> clientY > rect_top r \<and> clientY < rect_bottom r)"

definition mousemove :: "platform \<Rightarrow> real \<Rightarrow> real \<Rightarrow> widget \<Rightarrow> widget" where
  "mousemove p clientX clientY w =
     (if \<not> isDesktop p then w
      else case videoRef w of
             None \<Rightarrow> w
           | Some v \<Rightarrow>
               if inside clientX clientY (boundingClientRect v) then w\<lparr>controls := True\<rparr>
               else w\<lparr>controls := controlsOpen w\<rparr>)"

text \<open>Line 153: the \<open>show\<close> prop handed to the controls.\<close>

definition show_prop :: "widget \<Rightarrow> bool" where
  "show_prop w = (visible w \<and> (controls w \<or> controlsOpen w))"

text \<open>Line 215: tapping the video surface, registered off desktop only.\<close>

definition onClick :: "platform \<Rightarrow> widget \<Rightarrow> widget" where
  "onClick p w = (if isDesktop p then w else w\<lparr>controls := \<not> controls w\<rparr>)"

subsection \<open>Transport commands\<close>

definition with_video :: "(video \<Rightarrow> video) \<Rightarrow> widget \<Rightarrow> widget" where
  "with_video f w = w\<lparr>videoRef := map_option f (videoRef w)\<rparr>"

text \<open>Lines 167-177. \<open>play()\<close> and \<open>pause()\<close> set the element's \<open>paused\<close> attribute.\<close>

definition onPlayPause :: "bool \<Rightarrow> widget \<Rightarrow> widget" where
  "onPlayPause play w =
     (case videoRef w of
        None \<Rightarrow> w
      | Some v \<Rightarrow> if play then w\<lparr>videoRef := Some (v\<lparr>paused := False\<rparr>)\<rparr>
                  else w\<lparr>videoRef := Some (v\<lparr>paused := True\<rparr>)\<rparr>)"

text \<open>Lines 178-186. \<open>!currentTime\<close> holds for \<open>undefined\<close> and for the number 0.\<close>

definition onSeek :: "real \<Rightarrow> widget \<Rightarrow> widget" where
  "onSeek diff w =
     (case videoRef w of
        None \<Rightarrow> w
      | Some v \<Rightarrow>
          if currentTime v = 0 then w
          else w\<lparr>videoRef := Some (v\<lparr>currentTime := max 0 (currentTime v + diff)\<rparr>)\<rparr>)"

text \<open>Lines 187-189.\<close>

definition onSetPlaybackRate :: "real \<Rightarrow> widget \<Rightarrow> widget" where
  "onSetPlaybackRate rate w =
     (case videoRef w of
        None \<Rightarrow> w
      | Some v \<Rightarrow> w\<lparr>videoRef := Some (v\<lparr>playbackRate := rate\<rparr>)\<rparr>)"

text \<open>
  Lines 190-204. The handler is an \<open>async\<close> function without \<open>try\<close>: when the awaited promise
  is rejected, the rest of the body is not run. Both branches call \<open>toast.success\<close>.
\<close>

definition emit :: "toast \<Rightarrow> widget \<Rightarrow> widget" where
  "emit t w = w\<lparr>toasts := toasts w @ [t]\<rparr>"

definition onUploadFrame :: "upload_prop \<Rightarrow> widget \<Rightarrow> widget" where
  "onUploadFrame prop w =
     (case videoRef w of
        None \<Rightarrow> w
      | Some v \<Rightarrow>
          (case prop of
             None \<Rightarrow> w
           | Some upload \<Rightarrow>
               (case upload (currentTime v) of
                  Rejected \<Rightarrow> w
                | Fulfilled resp \<Rightarrow>
                    (case resp of
                       None \<Rightarrow> emit \<lparr>kind = Toast_success, message = ''Failed to submit frame to Frigate+''\<rparr> w
                     | Some r \<Rightarrow>
                         if status r = 200
                         then emit \<lparr>kind = Toast_success, message = ''Successfully submitted frame to Frigate+''\<rparr> w
                         else emit \<lparr>kind = Toast_success, message = ''Failed to submit frame to Frigate+''\<rparr> w))))"

subsection \<open>Media events\<close>

text \<open>Lines 230-232.\<close>

definition onVolumeChange :: "widget \<Rightarrow> widget" where
  "onVolumeChange w =
     w\<lparr>playerVolume := (case videoRef w of None \<Rightarrow> 1 | Some v \<Rightarrow> volume v)\<rparr>"

text \<open>Lines 233-240: \<open>setTimeout\<close> registers a new timer, due in 4000 ms, and returns its id.\<close>

definition onPlay :: "platform \<Rightarrow> widget \<Rightarrow> widget" where
  "onPlay p w =
     (let w1 = w\<lparr>isPlaying := True\<rparr> in
      if isMobile p
      then w1\<lparr>controls := True,
              timers := timers w @ [(nextTimerId w, now w + 4000)],
              nextTimerId := Suc (nextTimerId w),
              mobileCtrlTimeout := Some (nextTimerId w)\<rparr>
      else w1)"

text \<open>
  Lines 242-248: \<open>clearTimeout\<close> removes the timer with the given id, if it is pending.
  Timer ids are positive, so a stored id is truthy.
\<close>

definition clearTimeout :: "nat \<Rightarrow> widget \<Rightarrow> widget" where
  "clearTimeout t w = w\<lparr>timers := filter (\<lambda>x. fst x \<noteq> t) (timers w)\<rparr>"

definition onPause :: "platform \<Rightarrow> widget \<Rightarrow> widget" where
  "onPause p w =
     (let w1 = w\<lparr>isPlaying := False\<rparr> in
      case mobileCtrlTimeout w of
        None \<Rightarrow> w1
      | Some t \<Rightarrow> if isMobile p then clearTimeout t w1 else w1)"

text \<open>Lines 63-73 and 255-261. A volume of 0 is falsy and is not written back.\<close>

definition handleLoadedMetadata :: "widget \<Rightarrow> widget" where
  "handleLoadedMetadata w = w\<lparr>loadedMetadata := True\<rparr>"

definition onLoadedMetadata :: "widget \<Rightarrow> widget" where
  "onLoadedMetadata w =
     (let w1 = handleLoadedMetadata w in
      case videoRef w1 of
        None \<Rightarrow> w1
      | Some v \<Rightarrow> if playerVolume w1 = 0 then w1
                  else w1\<lparr>videoRef := Some (v\<lparr>volume := playerVolume w1\<rparr>)\<rparr>)"

text \<open>Lines 263-273.\<close>

definition onError :: "nat \<Rightarrow> widget \<Rightarrow> widget" where
  "onError code w =
     (if hlsRef w = None \<and> code \<in> set unsupportedErrorCodes \<and> videoRef w \<noteq> None
      then w\<lparr>loadedMetadata := False, useHlsCompat := True\<rparr>
      else w)"

text \<open>
  Time passing: every pending timer that is due fires. Each timer of this component runs
  the same callback, \<open>setControls(false)\<close>.
\<close>

definition elapse :: "nat \<Rightarrow> widget \<Rightarrow> widget" where
  "elapse d w =
     (let t = now w + d;
          due = filter (\<lambda>x. snd x \<le> t) (timers w)
      in w\<lparr>now := t,
           timers := filter (\<lambda>x. \<not> snd x \<le> t) (timers w),
           controls := (if due = [] then controls w else False)\<rparr>)"

subsection \<open>Events\<close>

text \<open>
  Everything that can happen to a mounted widget: the parent changes a prop, the user
  issues a command through the controls, the media element raises an event or changes on its
  own (\<open>SinkChange\<close>: time advancing, layout, anything the browser does), time passes.
\<close>

datatype event =
    SourceChange string
  | SetVisible bool
  | MouseMove real real
  | Click
  | SetControlsOpen bool
  | SetMuted bool
  | PlayPause bool
  | Seek real
  | SetPlaybackRate real
  | UploadFrame upload_prop
  | VolumeChange
  | Play
  | Pause
  | LoadedMetadata
  | Error nat
  | SinkChange "video \<Rightarrow> video"
  | Elapse nat

fun handle :: "platform \<Rightarrow> event \<Rightarrow> widget \<Rightarrow> widget" where
  "handle p (SourceChange s) w = w\<lparr>currentSource := s\<rparr>"
| "handle p (SetVisible b) w = w\<lparr>visible := b\<rparr>"
| "handle p (MouseMove x y) w = mousemove p x y w"
| "handle p Click w = onClick p w"
| "handle p (SetControlsOpen b) w = w\<lparr>controlsOpen := b\<rparr>"
| "handle p (SetMuted b) w = w\<lparr>playerMuted := b\<rparr>"
| "handle p (PlayPause b) w = onPlayPause b w"
| "handle p (Seek d) w = onSeek d w"
| "handle p (SetPlaybackRate r) w = onSetPlaybackRate r w"
| "handle p (UploadFrame u) w = onUploadFrame u w"
| "handle p VolumeChange w = onVolumeChange w"
| "handle p Play w = onPlay p w"
| "handle p Pause w = onPause p w"
| "handle p LoadedMetadata w = onLoadedMetadata w"
| "handle p (Error c) w = onError c w"
| "handle p (SinkChange f) w = with_video f w"
| "handle p (Elapse d) w = elapse d w"

definition step :: "platform \<Rightarrow> event \<Rightarrow> widget \<Rightarrow> widget" where
  "step p e w = commit p w (handle p e w)"

fun run :: "platform \<Rightarrow> event list \<Rightarrow> widget \<Rightarrow> widget" where
  "run p [] w = w"
| "run p (e # es) w = run p es (step p e w)"

subsection \<open>Invariants\<close>

text \<open>The number of engines constructed is 0 while \<open>hlsRef\<close> is empty and 1 afterwards.\<close>

definition engine_counted :: "widget \<Rightarrow> bool" where
  "engine_counted w = (hlsConstructed w = (case hlsRef w of None \<Rightarrow> 0 | Some h \<Rightarrow> 1))"

subsection \<open>Concrete platforms and sinks\<close>

text \<open>
  A browser whose \<open>load()\<close> follows the HTML standard; the engine re-attaches the media
  element when it loads a source, which runs the same load algorithm.
\<close>

definition desktop_browser :: platform where
  "desktop_browser =
     \<lparr>isAndroid = False, isDesktop = True, isMobile = False, Hls_isSupported = True,
      video_load = html_load, Hls_attachMedia = html_load, Hls_loadSource = (\<lambda>s. html_load)\<rparr>"

definition android_phone :: platform where
  "android_phone =
     \<lparr>isAndroid = True, isDesktop = False, isMobile = True, Hls_isSupported = True,
      video_load = html_load, Hls_attachMedia = html_load, Hls_loadSource = (\<lambda>s. html_load)\<rparr>"

text \<open>An Android browser without Media Source Extensions: \<open>Hls.isSupported()\<close> is false.\<close>

definition android_without_mse :: platform where
  "android_without_mse = android_phone\<lparr>Hls_isSupported := False\<rparr>"

definition sample_rect :: rect where
  "sample_rect = \<lparr>rect_left = 0, rect_right = 640, rect_top = 0, rect_bottom = 360\<rparr>"

definition sample_video :: video where
  "sample_video =
     \<lparr>src = [], playbackRate = 1, defaultPlaybackRate = 1, currentTime = 30, paused = False,
      volume = 1, canPlayHls = True, boundingClientRect = sample_rect\<rparr>"

section \<open>Properties\<close>

subsection \<open>What the handlers leave alone\<close>

lemmas handler_defs =
  mousemove_def onClick_def onPlayPause_def onSeek_def onSetPlaybackRate_def
  onUploadFrame_def emit_def onVolumeChange_def onPlay_def onPause_def clearTimeout_def
  onLoadedMetadata_def handleLoadedMetadata_def onError_def with_video_def elapse_def

lemma handle_hlsRef: "hlsRef (handle p e w) = hlsRef w"
  by (cases e)
     (simp_all add: handler_defs Let_def split: option.splits awaited.splits)

lemma handle_hlsConstructed: "hlsConstructed (handle p e w) = hlsConstructed w"
  by (cases e)
     (simp_all add: handler_defs Let_def split: option.splits awaited.splits)

lemma handle_videoRef_None: "(videoRef (handle p e w) = None) = (videoRef w = None)"
  by (cases e)
     (simp_all add: handler_defs Let_def split: option.splits awaited.splits)

lemma handle_useHlsCompat_other:
  "\<forall>c. e \<noteq> Error c \<Longrightarrow> useHlsCompat (handle p e w) = useHlsCompat w"
  by (cases e) (simp_all add: handler_defs Let_def split: option.splits awaited.splits)

lemma onError_useHlsCompat: "useHlsCompat w \<Longrightarrow> useHlsCompat (onError c w)"
  by (simp add: onError_def)

lemma handle_useHlsCompat: "useHlsCompat w \<Longrightarrow> useHlsCompat (handle p e w)"
proof (cases "\<exists>c. e = Error c")
  case True
  then show "useHlsCompat w \<Longrightarrow> useHlsCompat (handle p e w)"
    by (auto simp: onError_useHlsCompat)
next
  case False
  then show "useHlsCompat w \<Longrightarrow> useHlsCompat (handle p e w)"
    by (simp add: handle_useHlsCompat_other)
qed

lemma source_effect_useHlsCompat:
  "useHlsCompat (source_effect p c s w) = useHlsCompat w"
  by (simp add: source_effect_def Let_def split: option.splits)

lemma commit_useHlsCompat: "useHlsCompat (commit p r w) = useHlsCompat w"
  by (simp add: commit_def source_effect_useHlsCompat)

lemma step_useHlsCompat: "useHlsCompat (step p e w) = useHlsCompat (handle p e w)"
  by (simp add: step_def commit_useHlsCompat)

lemma run_useHlsCompat: "useHlsCompat w \<Longrightarrow> useHlsCompat (run p evs w)"
  by (induction evs arbitrary: w) (simp_all add: step_useHlsCompat handle_useHlsCompat)

lemma source_effect_engine_kept:
  assumes "hlsRef w \<noteq> None"
  shows "hlsRef (source_effect p c s w) \<noteq> None"
    and "hlsConstructed (source_effect p c s w) = hlsConstructed w"
  using assms by (auto simp: source_effect_def Let_def split: option.splits)

lemma step_engine_kept:
  assumes "hlsRef w \<noteq> None"
  shows "hlsRef (step p e w) \<noteq> None"
    and "hlsConstructed (step p e w) = hlsConstructed w"
  using assms
  by (simp_all add: step_def commit_def source_effect_engine_kept handle_hlsRef
        handle_hlsConstructed del: not_None_eq)

lemma run_engine_kept:
  assumes "hlsRef w \<noteq> None"
  shows "hlsRef (run p evs w) \<noteq> None \<and> hlsConstructed (run p evs w) = hlsConstructed w"
  using assms by (induction evs arbitrary: w) (simp_all add: step_engine_kept del: not_None_eq)

lemma onError_with_engine: "hlsRef w \<noteq> None \<Longrightarrow> onError c w = w"
  by (simp add: onError_def del: not_None_eq)

lemma onError_other_codes: "code \<notin> set unsupportedErrorCodes \<Longrightarrow> onError code w = w"
  by (simp add: onError_def)

lemma step_Error_with_engine: "hlsRef w \<noteq> None \<Longrightarrow> step p (Error c) w = w"
  by (simp add: step_def commit_def onError_with_engine del: not_None_eq)

lemma step_Error_fallback:
  assumes "hlsRef w = None" and "code \<in> set unsupportedErrorCodes"
    and "videoRef w = Some v" and "\<not> useHlsCompat w"
  shows "useHlsCompat (step p (Error code) w)"
    and "\<not> loadedMetadata (step p (Error code) w)"
    and "hlsRef (step p (Error code) w) \<noteq> None"
    and "hlsConstructed (step p (Error code) w) = Suc (hlsConstructed w)"
  using assms by (simp_all add: step_def commit_def onError_def source_effect_def Let_def)

subsection \<open>Fallback to the compatibility engine\<close>

text \<open>
  C1: when the sink reports an error whose code is one of \<open>unsupportedErrorCodes\<close> while no
  engine instance exists (the widget being in native mode), the error handler clears
  \<open>loadedMetadata\<close> and sets \<open>useHlsCompat\<close>; the render that follows constructs the one
  engine. From then on, after any sequence of events, the error handler returns the widget
  unchanged for every error code, the whole step of an error event changes nothing, the
  number of engines constructed stays the same and the mode stays the compatibility one.
\<close>

theorem onError_falls_back_exactly_once:
  assumes "hlsRef w = None" and "code \<in> set unsupportedErrorCodes"
    and "videoRef w = Some v" and "\<not> useHlsCompat w"
  shows "onError code w = w\<lparr>loadedMetadata := False, useHlsCompat := True\<rparr>
       \<and> useHlsCompat (step p (Error code) w)
       \<and> \<not> loadedMetadata (step p (Error code) w)
       \<and> hlsRef (step p (Error code) w) \<noteq> None
       \<and> hlsConstructed (step p (Error code) w) = Suc (hlsConstructed w)
       \<and> (\<forall>evs code'.
             onError code' (run p evs (step p (Error code) w)) = run p evs (step p (Error code) w)
           \<and> step p (Error code') (run p evs (step p (Error code) w))
               = run p evs (step p (Error code) w)
           \<and> hlsConstructed (run p evs (step p (Error code) w))
               = hlsConstructed (step p (Error code) w)
           \<and> useHlsCompat (run p evs (step p (Error code) w)))"
proof -
  let ?w' = "step p (Error code) w"
  have handler: "onError code w = w\<lparr>loadedMetadata := False, useHlsCompat := True\<rparr>"
    using assms by (simp add: onError_def)
  have mode: "useHlsCompat ?w'" and meta: "\<not> loadedMetadata ?w'"
    and engine: "hlsRef ?w' \<noteq> None"
    and once: "hlsConstructed ?w' = Suc (hlsConstructed w)"
    using step_Error_fallback [OF assms] by simp_all
  have later: "onError code' (run p evs ?w') = run p evs ?w'
      \<and> step p (Error code') (run p evs ?w') = run p evs ?w'
      \<and> hlsConstructed (run p evs ?w') = hlsConstructed ?w'
      \<and> useHlsCompat (run p evs ?w')" for evs code'
    using run_engine_kept [OF engine, of p evs] run_useHlsCompat [OF mode, of p evs]
    by (simp add: onError_with_engine step_Error_with_engine del: not_None_eq)
  from handler mode meta engine once later show ?thesis
    by blast
qed

lemmas eval_defs =
  step_def commit_def mount_def source_effect_def initial_mode_effect_def handler_defs
  init_widget_def desktop_browser_def android_phone_def android_without_mse_def html_load_def
  sample_video_def sample_rect_def new_Hls_def unsupportedErrorCodes_def USE_NATIVE_HLS_def
  MEDIA_ERR_DECODE_def MEDIA_ERR_SRC_NOT_SUPPORTED_def show_prop_def inside_def Let_def

theorem onError_falls_back_exactly_once_witness:
  "hlsRef (init_widget desktop_browser True ''a.m3u8'' (Some sample_video)) = None
   \<and> MEDIA_ERR_SRC_NOT_SUPPORTED \<in> set unsupportedErrorCodes
   \<and> videoRef (init_widget desktop_browser True ''a.m3u8'' (Some sample_video)) = Some sample_video
   \<and> \<not> useHlsCompat (init_widget desktop_browser True ''a.m3u8'' (Some sample_video))
   \<and> useHlsCompat (step desktop_browser (Error MEDIA_ERR_SRC_NOT_SUPPORTED)
         (init_widget desktop_browser True ''a.m3u8'' (Some sample_video)))
   \<and> hlsConstructed (run desktop_browser [SourceChange ''b.m3u8'', Error MEDIA_ERR_DECODE]
         (step desktop_browser (Error MEDIA_ERR_SRC_NOT_SUPPORTED)
           (init_widget desktop_browser True ''a.m3u8'' (Some sample_video)))) = 1"
proof -
  let ?w = "init_widget desktop_browser True ''a.m3u8'' (Some sample_video)"
  have a: "hlsRef ?w = None" by (simp add: init_widget_def)
  have b: "MEDIA_ERR_SRC_NOT_SUPPORTED \<in> set unsupportedErrorCodes"
    by (simp add: unsupportedErrorCodes_def)
  have c: "videoRef ?w = Some sample_video" by (simp add: init_widget_def)
  have d: "\<not> useHlsCompat ?w" by (simp add: init_widget_def)
  have e: "hlsConstructed ?w = 0" by (simp add: init_widget_def)
  let ?w' = "step desktop_browser (Error MEDIA_ERR_SRC_NOT_SUPPORTED) ?w"
  note fallback = onError_falls_back_exactly_once [OF a b c d, of desktop_browser]
  from fallback have m: "useHlsCompat ?w'"
    by blast
  from fallback have k: "hlsConstructed ?w' = Suc (hlsConstructed ?w)"
    by blast
  from fallback
  have l: "hlsConstructed (run desktop_browser [SourceChange ''b.m3u8'', Error MEDIA_ERR_DECODE] ?w')
         = hlsConstructed ?w'"
    by blast
  from l k e
  have n: "hlsConstructed (run desktop_browser [SourceChange ''b.m3u8'', Error MEDIA_ERR_DECODE] ?w') = 1"
    by (simp only: One_nat_def)
  from a b c d m n show ?thesis
    by blast
qed

subsection \<open>The playback mode is one-way\<close>

text \<open>
  C2: once \<open>useHlsCompat\<close> is set it stays set through every sequence of events; a change
  of source never changes the mode, whichever mode is active; a step changes the mode only
  when it is an error event with an unsupported code arriving while no engine exists, and
  then it changes it to the compatibility mode; mounting changes the mode only through the
  initial capability detection, and never away from the compatibility mode.
\<close>

theorem playback_mode_is_one_way:
  "(useHlsCompat w \<longrightarrow> useHlsCompat (run p evs w))
   \<and> useHlsCompat (step p (SourceChange s) w) = useHlsCompat w
   \<and> (useHlsCompat (step p e w) \<noteq> useHlsCompat w \<longrightarrow>
        (\<exists>c. e = Error c \<and> c \<in> set unsupportedErrorCodes \<and> hlsRef w = None)
        \<and> useHlsCompat (step p e w))
   \<and> useHlsCompat (mount p w) = useHlsCompat (initial_mode_effect p w)
   \<and> (useHlsCompat w \<longrightarrow> useHlsCompat (mount p w))"
proof -
  have seq: "useHlsCompat w \<longrightarrow> useHlsCompat (run p evs w)"
    by (simp add: run_useHlsCompat)
  have source: "useHlsCompat (step p (SourceChange s) w) = useHlsCompat w"
    by (simp add: step_useHlsCompat)
  have only: "(\<exists>c. e = Error c \<and> c \<in> set unsupportedErrorCodes \<and> hlsRef w = None)
      \<and> useHlsCompat (step p e w)"
    if change: "useHlsCompat (step p e w) \<noteq> useHlsCompat w"
  proof (cases "\<exists>c. e = Error c")
    case True
    then obtain c where e: "e = Error c" by blast
    with change show ?thesis
      by (auto simp: step_useHlsCompat onError_def split: if_splits)
  next
    case False
    with change show ?thesis
      by (simp add: step_useHlsCompat handle_useHlsCompat_other)
  qed
  have mnt: "useHlsCompat (mount p w) = useHlsCompat (initial_mode_effect p w)"
    by (simp add: mount_def commit_useHlsCompat source_effect_useHlsCompat)
  have keep: "useHlsCompat w \<longrightarrow> useHlsCompat (mount p w)"
    unfolding mnt by (simp add: initial_mode_effect_def split: option.splits)
  from seq source only mnt keep show ?thesis
    by blast
qed

theorem playback_mode_is_one_way_witness:
  "useHlsCompat (mount android_phone (init_widget android_phone True ''a.m3u8'' (Some sample_video)))
   \<and> useHlsCompat (run android_phone [SourceChange ''b.m3u8'', Error MEDIA_ERR_DECODE, Pause]
        (mount android_phone (init_widget android_phone True ''a.m3u8'' (Some sample_video))))
   \<and> useHlsCompat (step desktop_browser (Error MEDIA_ERR_DECODE)
          (init_widget desktop_browser True ''a.m3u8'' (Some sample_video)))
       \<noteq> useHlsCompat (init_widget desktop_browser True ''a.m3u8'' (Some sample_video))
   \<and> MEDIA_ERR_DECODE \<in> set unsupportedErrorCodes
   \<and> useHlsCompat (init_widget desktop_browser True ''a.m3u8'' (Some sample_video)\<lparr>useHlsCompat := True\<rparr>)
   \<and> useHlsCompat (mount desktop_browser
         (init_widget desktop_browser True ''a.m3u8'' (Some sample_video)\<lparr>useHlsCompat := True\<rparr>))"
proof -
  let ?a = "mount android_phone (init_widget android_phone True ''a.m3u8'' (Some sample_video))"
  let ?d = "init_widget desktop_browser True ''a.m3u8'' (Some sample_video)"
  have a: "useHlsCompat ?a"
    by (simp add: eval_defs)
  have d: "useHlsCompat (step desktop_browser (Error MEDIA_ERR_DECODE) ?d) \<noteq> useHlsCompat ?d"
    by (simp add: eval_defs)
  have m: "MEDIA_ERR_DECODE \<in> set unsupportedErrorCodes"
    by (simp add: unsupportedErrorCodes_def)
  have u: "useHlsCompat (?d\<lparr>useHlsCompat := True\<rparr>)"
    by simp
  from playback_mode_is_one_way
         [of ?a android_phone "[SourceChange ''b.m3u8'', Error MEDIA_ERR_DECODE, Pause]"
             "''b.m3u8''" Pause]
       playback_mode_is_one_way
         [of ?d desktop_browser "[]" "''b.m3u8''" "Error MEDIA_ERR_DECODE"]
       playback_mode_is_one_way
         [of "?d\<lparr>useHlsCompat := True\<rparr>" desktop_browser "[]" "''b.m3u8''" Pause]
       a d m u
  show ?thesis by blast
qed

subsection \<open>The initial playback mode\<close>

text \<open>
  C3, as the code has it: on Android, with the sink attached, the mode picked at mount is
  the compatibility engine exactly when \<open>Hls.isSupported()\<close> holds, whatever the sink's
  \<open>canPlayType\<close> answers; where the engine is not supported the widget stays in native mode.
\<close>

theorem android_initial_mode:
  assumes "isAndroid p" and "videoRef w = Some v" and "\<not> useHlsCompat w"
  shows "useHlsCompat (initial_mode_effect p w) = Hls_isSupported p
       \<and> useHlsCompat (mount p w) = Hls_isSupported p
       \<and> useHlsCompat (mount p (w\<lparr>videoRef := Some (v\<lparr>canPlayHls := probe\<rparr>)\<rparr>)) = Hls_isSupported p"
  using assms
  by (simp add: mount_def commit_useHlsCompat source_effect_useHlsCompat
        initial_mode_effect_def USE_NATIVE_HLS_def)

theorem android_initial_mode_witness:
  "isAndroid android_phone
   \<and> videoRef (init_widget android_phone True ''stream.m3u8'' (Some sample_video)) = Some sample_video
   \<and> \<not> useHlsCompat (init_widget android_phone True ''stream.m3u8'' (Some sample_video))
   \<and> canPlayHls sample_video
   \<and> useHlsCompat (mount android_phone (init_widget android_phone True ''stream.m3u8'' (Some sample_video)))"
proof -
  let ?w = "init_widget android_phone True ''stream.m3u8'' (Some sample_video)"
  have a: "isAndroid android_phone" by (simp add: android_phone_def)
  have b: "videoRef ?w = Some sample_video" by (simp add: init_widget_def)
  have c: "\<not> useHlsCompat ?w" by (simp add: init_widget_def)
  have d: "canPlayHls sample_video" by (simp add: sample_video_def)
  have e: "Hls_isSupported android_phone" by (simp add: android_phone_def)
  from android_initial_mode [OF a b c] e have "useHlsCompat (mount android_phone ?w)"
    by blast
  with a b c d show ?thesis
    by blast
qed

text \<open>
  C3 as stated fails: on an Android browser where \<open>Hls.isSupported()\<close> is false, the
  widget mounts in native mode, whether or not the sink reports support for the HLS type.
\<close>

theorem android_without_engine_stays_native:
  "isAndroid android_without_mse
   \<and> \<not> useHlsCompat (mount android_without_mse
          (init_widget android_without_mse True ''stream.m3u8'' (Some sample_video)))
   \<and> \<not> useHlsCompat (mount android_without_mse
          (init_widget android_without_mse True ''stream.m3u8''
             (Some (sample_video\<lparr>canPlayHls := False\<rparr>))))"
  by (simp add: eval_defs)

subsection \<open>Changing the source\<close>

lemma source_effect_native:
  assumes "videoRef w = Some v"
  shows "source_effect p False s w = w\<lparr>videoRef := Some (video_load p (v\<lparr>src := s\<rparr>))\<rparr>"
  using assms by (simp add: source_effect_def)

text \<open>
  C4: in native mode the effect assigns the new source and calls \<open>load()\<close>, then returns
  (line 97) before the line that writes the saved playback rate back (line 106), which only
  the compatibility branch reaches. In a browser whose \<open>load()\<close> resets the rate, a sink
  playing at rate 2 is at rate 1 after the source changes.
\<close>

theorem native_source_change_loses_rate:
  "\<not> useHlsCompat (init_widget desktop_browser True ''a.m3u8'' (Some (sample_video\<lparr>playbackRate := 2\<rparr>)))
   \<and> map_option playbackRate
       (videoRef (init_widget desktop_browser True ''a.m3u8'' (Some (sample_video\<lparr>playbackRate := 2\<rparr>))))
     = Some 2
   \<and> map_option src
       (videoRef (step desktop_browser (SourceChange ''b.m3u8'')
          (init_widget desktop_browser True ''a.m3u8'' (Some (sample_video\<lparr>playbackRate := 2\<rparr>)))))
     = Some ''b.m3u8''
   \<and> map_option playbackRate
       (videoRef (step desktop_browser (SourceChange ''b.m3u8'')
          (init_widget desktop_browser True ''a.m3u8'' (Some (sample_video\<lparr>playbackRate := 2\<rparr>)))))
     = Some 1"
  by (simp add: eval_defs)

lemma source_effect_compat:
  assumes "videoRef w = Some v"
  shows "map_option playbackRate (videoRef (source_effect p True s w)) = Some (playbackRate v)"
    and "map_option loadedSources (hlsRef (source_effect p True s w))
         = Some ((case hlsRef w of None \<Rightarrow> [] | Some h \<Rightarrow> loadedSources h) @ [s])"
    and "hlsConstructed (source_effect p True s w)
         = (case hlsRef w of None \<Rightarrow> Suc (hlsConstructed w) | Some h \<Rightarrow> hlsConstructed w)"
  using assms by (simp_all add: source_effect_def new_Hls_def Let_def split: option.splits)

lemma source_effect_engine_counted:
  "engine_counted w \<Longrightarrow> engine_counted (source_effect p c s w)"
  by (auto simp: engine_counted_def source_effect_def Let_def split: option.splits)

lemma commit_engine_counted: "engine_counted w \<Longrightarrow> engine_counted (commit p r w)"
  by (simp add: commit_def source_effect_engine_counted)

lemma handle_engine_counted: "engine_counted w \<Longrightarrow> engine_counted (handle p e w)"
  by (simp add: engine_counted_def handle_hlsRef handle_hlsConstructed)

lemma step_engine_counted: "engine_counted w \<Longrightarrow> engine_counted (step p e w)"
  by (simp add: step_def commit_engine_counted handle_engine_counted)

lemma run_engine_counted: "engine_counted w \<Longrightarrow> engine_counted (run p evs w)"
  by (induction evs arbitrary: w) (simp_all add: step_engine_counted)

lemma mount_engine_counted: "engine_counted w \<Longrightarrow> engine_counted (mount p w)"
proof -
  assume "engine_counted w"
  then have "engine_counted (initial_mode_effect p w)"
    by (simp add: engine_counted_def initial_mode_effect_def split: option.splits)
  then show "engine_counted (mount p w)"
    by (simp add: mount_def commit_engine_counted source_effect_engine_counted)
qed

lemma engine_constructed_at_most_once:
  "hlsConstructed (run p evs (mount p (init_widget p vis s0 v0))) \<le> 1"
proof -
  have "engine_counted (init_widget p vis s0 v0)"
    by (simp add: engine_counted_def init_widget_def)
  then have "engine_counted (run p evs (mount p (init_widget p vis s0 v0)))"
    by (simp add: run_engine_counted mount_engine_counted)
  then show ?thesis
    by (simp add: engine_counted_def split: option.splits)
qed

text \<open>
  C5: in compatibility mode, with the sink attached, a change of source makes the engine
  load the new source (it is appended to the sources the engine was given), constructs and
  attaches an engine only if none exists, and leaves the sink's playback rate at the value
  it had before the change, whatever the engine does to the sink while attaching and
  loading. The whole step is given: with an engine present the sink is what \<open>loadSource\<close>
  made of it, with the saved rate written back, and \<open>attachMedia\<close> is not called again;
  without one, the new engine is attached first. Over the whole life of a mounted widget at
  most one engine is constructed.
\<close>

theorem compat_source_change_keeps_rate:
  assumes "useHlsCompat w" and "videoRef w = Some v" and "s \<noteq> currentSource w"
  shows "map_option playbackRate (videoRef (step p (SourceChange s) w)) = Some (playbackRate v)
       \<and> map_option loadedSources (hlsRef (step p (SourceChange s) w))
           = Some ((case hlsRef w of None \<Rightarrow> [] | Some h \<Rightarrow> loadedSources h) @ [s])
       \<and> hlsConstructed (step p (SourceChange s) w)
           = (case hlsRef w of None \<Rightarrow> Suc (hlsConstructed w) | Some h \<Rightarrow> hlsConstructed w)
       \<and> step p (SourceChange s) w
           = (case hlsRef w of
                Some h \<Rightarrow>
                  w\<lparr>currentSource := s,
                    hlsRef := Some (h\<lparr>loadedSources := loadedSources h @ [s]\<rparr>),
                    videoRef := Some ((Hls_loadSource p s v)\<lparr>playbackRate := playbackRate v\<rparr>)\<rparr>
              | None \<Rightarrow>
                  w\<lparr>currentSource := s,
                    hlsRef := Some \<lparr>mediaAttached = True, loadedSources = [s]\<rparr>,
                    videoRef := Some ((Hls_loadSource p s (Hls_attachMedia p v))
                                        \<lparr>playbackRate := playbackRate v\<rparr>),
                    hlsConstructed := Suc (hlsConstructed w)\<rparr>)
       \<and> (\<forall>evs vis s0 v0. hlsConstructed (run p evs (mount p (init_widget p vis s0 v0))) \<le> 1)"
proof -
  let ?w = "w\<lparr>currentSource := s\<rparr>"
  have v: "videoRef ?w = Some v"
    using assms(2) by simp
  have eq: "step p (SourceChange s) w = source_effect p True s ?w"
    using assms(1,3) by (simp add: step_def commit_def)
  have fields: "map_option playbackRate (videoRef (step p (SourceChange s) w)) = Some (playbackRate v)
       \<and> map_option loadedSources (hlsRef (step p (SourceChange s) w))
           = Some ((case hlsRef w of None \<Rightarrow> [] | Some h \<Rightarrow> loadedSources h) @ [s])
       \<and> hlsConstructed (step p (SourceChange s) w)
           = (case hlsRef w of None \<Rightarrow> Suc (hlsConstructed w) | Some h \<Rightarrow> hlsConstructed w)"
    using eq source_effect_compat [OF v, of p s] by (simp split: option.splits)
  have whole: "step p (SourceChange s) w
           = (case hlsRef w of
                Some h \<Rightarrow>
                  w\<lparr>currentSource := s,
                    hlsRef := Some (h\<lparr>loadedSources := loadedSources h @ [s]\<rparr>),
                    videoRef := Some ((Hls_loadSource p s v)\<lparr>playbackRate := playbackRate v\<rparr>)\<rparr>
              | None \<Rightarrow>
                  w\<lparr>currentSource := s,
                    hlsRef := Some \<lparr>mediaAttached = True, loadedSources = [s]\<rparr>,
                    videoRef := Some ((Hls_loadSource p s (Hls_attachMedia p v))
                                        \<lparr>playbackRate := playbackRate v\<rparr>),
                    hlsConstructed := Suc (hlsConstructed w)\<rparr>)"
    unfolding eq using assms(2)
    by (simp add: source_effect_def new_Hls_def Let_def split: option.splits)
  have life: "\<forall>evs vis s0 v0. hlsConstructed (run p evs (mount p (init_widget p vis s0 v0))) \<le> 1"
    using engine_constructed_at_most_once [of p] by blast
  from fields whole life show ?thesis
    by blast
qed

theorem compat_source_change_keeps_rate_witness:
  "useHlsCompat (mount android_phone (init_widget android_phone True ''a.m3u8'' (Some sample_video)))
   \<and> map_option playbackRate
       (videoRef (onSetPlaybackRate 2
          (mount android_phone (init_widget android_phone True ''a.m3u8'' (Some sample_video)))))
     = Some 2
   \<and> map_option playbackRate
       (videoRef (step android_phone (SourceChange ''b.m3u8'')
          (onSetPlaybackRate 2
             (mount android_phone (init_widget android_phone True ''a.m3u8'' (Some sample_video))))))
     = Some 2
   \<and> map_option loadedSources
       (hlsRef (step android_phone (SourceChange ''b.m3u8'')
          (onSetPlaybackRate 2
             (mount android_phone (init_widget android_phone True ''a.m3u8'' (Some sample_video))))))
     = Some [''a.m3u8'', ''b.m3u8'']
   \<and> videoRef (step android_phone (SourceChange ''b.m3u8'')
          (onSetPlaybackRate 2
             (mount android_phone (init_widget android_phone True ''a.m3u8'' (Some sample_video)))))
     = Some ((html_load
               (html_load (html_load (html_load (sample_video\<lparr>src := ''a.m3u8''\<rparr>)))
                  \<lparr>playbackRate := 2\<rparr>))
             \<lparr>playbackRate := 2\<rparr>)"
proof -
  let ?m = "mount android_phone (init_widget android_phone True ''a.m3u8'' (Some sample_video))"
  let ?w = "onSetPlaybackRate 2 ?m"
  let ?v = "html_load (html_load (html_load (sample_video\<lparr>src := ''a.m3u8''\<rparr>)))\<lparr>playbackRate := 2\<rparr>"
  let ?h = "\<lparr>mediaAttached = True, loadedSources = [''a.m3u8'']\<rparr>"
  let ?w' = "step android_phone (SourceChange ''b.m3u8'') ?w"
  have m: "useHlsCompat ?m"
    by (simp add: eval_defs)
  have a: "useHlsCompat ?w"
    by (simp add: eval_defs)
  have b: "videoRef ?w = Some ?v"
    by (simp add: eval_defs)
  have c: "''b.m3u8'' \<noteq> currentSource ?w"
    by (simp add: eval_defs)
  have d: "hlsRef ?w = Some ?h"
    by (simp add: eval_defs)
  have l: "Hls_loadSource android_phone ''b.m3u8'' = html_load"
    by (simp add: android_phone_def)
  have r: "map_option playbackRate (videoRef ?w) = Some 2"
    by (simp add: b)
  note change = compat_source_change_keeps_rate [OF a b c, of android_phone]
  from change have r': "map_option playbackRate (videoRef ?w') = Some (playbackRate ?v)"
    by blast
  from change d have s': "map_option loadedSources (hlsRef ?w') = Some [''a.m3u8'', ''b.m3u8'']"
    by simp
  from change
  have "?w' = (case hlsRef ?w of
                Some h \<Rightarrow>
                  ?w\<lparr>currentSource := ''b.m3u8'',
                    hlsRef := Some (h\<lparr>loadedSources := loadedSources h @ [''b.m3u8'']\<rparr>),
                    videoRef := Some ((Hls_loadSource android_phone ''b.m3u8'' ?v)
                                        \<lparr>playbackRate := playbackRate ?v\<rparr>)\<rparr>
              | None \<Rightarrow>
                  ?w\<lparr>currentSource := ''b.m3u8'',
                    hlsRef := Some \<lparr>mediaAttached = True, loadedSources = [''b.m3u8'']\<rparr>,
                    videoRef := Some ((Hls_loadSource android_phone ''b.m3u8''
                                         (Hls_attachMedia android_phone ?v))
                                        \<lparr>playbackRate := playbackRate ?v\<rparr>),
                    hlsConstructed := Suc (hlsConstructed ?w)\<rparr>)"
    by blast
  then have v': "videoRef ?w' = Some ((html_load ?v)\<lparr>playbackRate := 2\<rparr>)"
    by (simp add: d l)
  from m r r' s' v' show ?thesis
    by simp
qed

subsection \<open>Seeking\<close>

text \<open>
  C10: when the sink's current time is exactly 0, \<open>onSeek\<close> does nothing, for every
  delta, positive ones included: the widget is returned as it was, the current time stays 0,
  and this is what the handler does for a sink that is not attached.
\<close>

theorem onSeek_at_zero_is_noop:
  assumes "videoRef w = Some v" and "currentTime v = 0"
  shows "onSeek diff w = w
       \<and> map_option currentTime (videoRef (onSeek diff w)) = Some 0
       \<and> onSeek diff (w\<lparr>videoRef := None\<rparr>) = w\<lparr>videoRef := None\<rparr>"
  using assms by (simp add: onSeek_def)

theorem onSeek_at_zero_is_noop_witness:
  "videoRef (init_widget desktop_browser True ''a.m3u8'' (Some (sample_video\<lparr>currentTime := 0\<rparr>)))
     = Some (sample_video\<lparr>currentTime := 0\<rparr>)
   \<and> currentTime (sample_video\<lparr>currentTime := 0\<rparr>) = 0
   \<and> map_option currentTime
        (videoRef (onSeek 5 (init_widget desktop_browser True ''a.m3u8''
           (Some (sample_video\<lparr>currentTime := 0\<rparr>))))) = Some 0"
proof -
  have a: "videoRef (init_widget desktop_browser True ''a.m3u8'' (Some (sample_video\<lparr>currentTime := 0\<rparr>)))
     = Some (sample_video\<lparr>currentTime := 0\<rparr>)"
    by (simp add: init_widget_def)
  have b: "currentTime (sample_video\<lparr>currentTime := 0\<rparr>) = 0"
    by simp
  from onSeek_at_zero_is_noop [OF a b, of 5] a b show ?thesis
    by simp
qed

text \<open>
  C7: \<open>onSeek\<close> is meant to set the current time to \<open>max(0, currentTime + delta)\<close> for every
  attached sink. At a current time of 0 the guard \<open>!currentTime\<close> returns first: seeking
  forward by 5 seconds from 0 leaves the time at 0, where \<open>max(0, 0 + 5)\<close> is 5. Seeking
  by -100 from 30 gives 0, as the claim says.
\<close>

theorem onSeek_forward_from_zero_stays:
  "map_option currentTime
     (videoRef (onSeek 5 (init_widget desktop_browser True ''a.m3u8''
        (Some (sample_video\<lparr>currentTime := 0\<rparr>))))) = Some 0
   \<and> max 0 (currentTime (sample_video\<lparr>currentTime := 0\<rparr>) + 5) = 5
   \<and> map_option currentTime
     (videoRef (onSeek (- 100) (init_widget desktop_browser True ''a.m3u8''
        (Some sample_video)))) = Some 0"
  by (simp add: onSeek_def init_widget_def sample_video_def)

text \<open>Away from 0 the handler does clamp at 0 and applies no upper bound.\<close>

lemma onSeek_nonzero:
  assumes "videoRef w = Some v" and "currentTime v \<noteq> 0"
  shows "map_option currentTime (videoRef (onSeek diff w)) = Some (max 0 (currentTime v + diff))"
  using assms by (simp add: onSeek_def)

subsection \<open>Submitting a frame\<close>

lemma onUploadFrame_only_toasts:
  "onUploadFrame prop w = w\<lparr>toasts := toasts (onUploadFrame prop w)\<rparr>"
  by (simp add: onUploadFrame_def emit_def split: option.splits awaited.splits)

text \<open>
  What the handler emits, outcome by outcome, with the sink attached. Both the success and
  the failure text go through \<open>toast.success\<close>; a rejected promise emits nothing.
\<close>

lemma onUploadFrame_outcomes:
  assumes "videoRef w = Some v"
  shows "upload (currentTime v) = Fulfilled (Some r) \<Longrightarrow> status r = 200 \<Longrightarrow>
           toasts (onUploadFrame (Some upload) w)
           = toasts w @ [\<lparr>kind = Toast_success,
                           message = ''Successfully submitted frame to Frigate+''\<rparr>]"
    and "upload (currentTime v) = Fulfilled (Some r) \<Longrightarrow> status r \<noteq> 200 \<Longrightarrow>
           toasts (onUploadFrame (Some upload) w)
           = toasts w @ [\<lparr>kind = Toast_success,
                           message = ''Failed to submit frame to Frigate+''\<rparr>]"
    and "upload (currentTime v) = Fulfilled None \<Longrightarrow>
           toasts (onUploadFrame (Some upload) w)
           = toasts w @ [\<lparr>kind = Toast_success,
                           message = ''Failed to submit frame to Frigate+''\<rparr>]"
    and "upload (currentTime v) = Rejected \<Longrightarrow>
           toasts (onUploadFrame (Some upload) w) = toasts w"
  using assms by (simp_all add: onUploadFrame_def emit_def)

lemma onUploadFrame_keeps_sink:
  "videoRef (onUploadFrame prop w) = videoRef w"
  "isPlaying (onUploadFrame prop w) = isPlaying w"
  by (subst onUploadFrame_only_toasts, simp)+

text \<open>
  C6: a thrown transport failure is to emit a failure notification. The handler awaits
  the promise of the \<open>onUploadFrame\<close> prop (line 192) outside any \<open>try\<close>, so when the
  promise is rejected neither \<open>toast\<close> call is reached and no notification is emitted,
  while the \<open>else\<close> branch beside it does report a failed submission. That branch, for a
  response with status 500, calls \<open>toast.success\<close> with the failure text (line 199): the
  notification emitted is of the success kind. A response with status 200 emits the success
  notification, and the sink's paused flag is untouched in every case.
\<close>

theorem rejected_upload_emits_nothing:
  "toasts (onUploadFrame (Some (\<lambda>t. Rejected))
     (init_widget desktop_browser True ''a.m3u8'' (Some sample_video))) = []
   \<and> toasts (onUploadFrame (Some (\<lambda>t. Fulfilled (Some \<lparr>status = 500\<rparr>)))
       (init_widget desktop_browser True ''a.m3u8'' (Some sample_video)))
     = [\<lparr>kind = Toast_success, message = ''Failed to submit frame to Frigate+''\<rparr>]
   \<and> toasts (onUploadFrame (Some (\<lambda>t. Fulfilled (Some \<lparr>status = 200\<rparr>)))
       (init_widget desktop_browser True ''a.m3u8'' (Some sample_video)))
     = [\<lparr>kind = Toast_success, message = ''Successfully submitted frame to Frigate+''\<rparr>]
   \<and> map_option paused (videoRef (onUploadFrame (Some (\<lambda>t. Rejected))
       (init_widget desktop_browser True ''a.m3u8'' (Some sample_video))))
     = map_option paused (videoRef (init_widget desktop_browser True ''a.m3u8'' (Some sample_video)))"
  by (simp add: onUploadFrame_def emit_def init_widget_def)

subsection \<open>Control visibility on desktop\<close>

lemma source_effect_controls:
  "controls (source_effect p c s w) = controls w"
  "controlsOpen (source_effect p c s w) = controlsOpen w"
  "visible (source_effect p c s w) = visible w"
  "timers (source_effect p c s w) = timers w"
  by (simp_all add: source_effect_def Let_def split: option.splits)

lemma commit_controls:
  "controls (commit p r w) = controls w"
  "controlsOpen (commit p r w) = controlsOpen w"
  "visible (commit p r w) = visible w"
  "timers (commit p r w) = timers w"
  by (simp_all add: commit_def source_effect_controls)

lemma mount_controls:
  "controls (mount p w) = controls w"
  "controlsOpen (mount p w) = controlsOpen w"
  "timers (mount p w) = timers w"
  by (simp_all add: mount_def commit_controls source_effect_controls initial_mode_effect_def
        split: option.splits)

text \<open>Off mobile no timer is ever armed.\<close>

lemma handle_no_timers:
  "\<not> isMobile p \<Longrightarrow> timers w = [] \<Longrightarrow> timers (handle p e w) = []"
  by (cases e) (simp_all add: handler_defs Let_def split: option.splits awaited.splits)

lemma run_no_timers:
  "\<not> isMobile p \<Longrightarrow> timers w = [] \<Longrightarrow> timers (run p evs w) = []"
  by (induction evs arbitrary: w) (simp_all add: step_def commit_controls handle_no_timers)

text \<open>On desktop only the pointer listener writes \<open>controls\<close>.\<close>

lemma handle_controls_desktop:
  assumes "isDesktop p" and "\<not> isMobile p" and "timers w = []"
    and "\<forall>x y. e \<noteq> MouseMove x y"
  shows "controls (handle p e w) = controls w"
  using assms
  by (cases e) (simp_all add: handler_defs Let_def split: option.splits awaited.splits)

lemma run_controls_desktop:
  assumes "isDesktop p" and "\<not> isMobile p" and "timers w = []"
    and "\<forall>e \<in> set evs. \<forall>x y. e \<noteq> MouseMove x y"
  shows "controls (run p evs w) = controls w"
  using assms
proof (induction evs arbitrary: w)
  case Nil
  then show ?case by simp
next
  case (Cons e evs)
  have t: "timers (step p e w) = []"
    using Cons.prems by (simp add: step_def commit_controls handle_no_timers)
  have c: "controls (step p e w) = controls w"
    using Cons.prems by (simp add: step_def commit_controls handle_controls_desktop)
  from Cons.IH [OF Cons.prems(1,2) t] Cons.prems(4) c show ?case
    by simp
qed

lemma step_MouseMove_desktop:
  assumes "isDesktop p" and "videoRef w = Some v"
  shows "controls (step p (MouseMove x y) w) = (inside x y (boundingClientRect v) \<or> controlsOpen w)"
    and "timers (step p (MouseMove x y) w) = timers w"
  using assms by (simp_all add: step_def commit_controls mousemove_def)

text \<open>
  C8, as the code has it: on desktop, at any point after a pointer move that the listener
  sampled (sink attached), the controls are shown exactly when the widget is visible and
  the pointer was strictly inside the bounding box at that move, or the pin was set at that
  move, or the pin is set now. Before the first pointer move they are shown exactly when
  the widget is visible and the pin is set. So a pointer inside the box or a set pin shows
  the controls of a visible widget; a pin cleared while the pointer is outside hides them at
  once only if the pin was not set when the pointer last moved.
\<close>

theorem desktop_controls_visibility:
  assumes "isDesktop p" and "\<not> isMobile p"
    and "w = run p before (mount p (init_widget p vis s0 v0))"
    and "videoRef w = Some v"
    and "\<forall>e \<in> set after. \<forall>x y. e \<noteq> MouseMove x y"
  shows "show_prop (run p after (step p (MouseMove x y) w))
         = (visible (run p after (step p (MouseMove x y) w))
            \<and> (inside x y (boundingClientRect v) \<or> controlsOpen w
                 \<or> controlsOpen (run p after (step p (MouseMove x y) w))))
       \<and> show_prop (run p after (mount p (init_widget p vis s0 v0)))
         = (visible (run p after (mount p (init_widget p vis s0 v0)))
            \<and> controlsOpen (run p after (mount p (init_widget p vis s0 v0))))"
proof -
  let ?m = "mount p (init_widget p vis s0 v0)"
  let ?w1 = "step p (MouseMove x y) w"
  have tm: "timers ?m = []"
    by (simp add: mount_controls init_widget_def)
  have cm: "controls ?m = False"
    using assms(2) by (simp add: mount_controls init_widget_def)
  have tw: "timers w = []"
    unfolding assms(3) using assms(2) tm by (rule run_no_timers)
  have t1: "timers ?w1 = []"
    using step_MouseMove_desktop(2) [OF assms(1,4)] tw by simp
  have c1: "controls ?w1 = (inside x y (boundingClientRect v) \<or> controlsOpen w)"
    using step_MouseMove_desktop(1) [OF assms(1,4)] by simp
  have "controls (run p after ?w1) = controls ?w1"
    using assms(1,2) t1 assms(5) by (rule run_controls_desktop)
  moreover have "controls (run p after ?m) = controls ?m"
    using assms(1,2) tm assms(5) by (rule run_controls_desktop)
  ultimately show ?thesis
    using c1 cm by (auto simp: show_prop_def)
qed

theorem desktop_controls_visibility_witness:
  "isDesktop desktop_browser \<and> \<not> isMobile desktop_browser
   \<and> videoRef (run desktop_browser [SetControlsOpen True]
         (mount desktop_browser (init_widget desktop_browser True ''a.m3u8'' (Some sample_video))))
       = Some (html_load (sample_video\<lparr>src := ''a.m3u8''\<rparr>))
   \<and> \<not> inside 1000 1000 (boundingClientRect (html_load (sample_video\<lparr>src := ''a.m3u8''\<rparr>)))
   \<and> show_prop (run desktop_browser [Pause, SetControlsOpen False]
         (step desktop_browser (MouseMove 1000 1000)
           (run desktop_browser [SetControlsOpen True]
             (mount desktop_browser (init_widget desktop_browser True ''a.m3u8'' (Some sample_video))))))"
proof -
  let ?m = "mount desktop_browser (init_widget desktop_browser True ''a.m3u8'' (Some sample_video))"
  let ?w = "run desktop_browser [SetControlsOpen True] ?m"
  let ?v = "html_load (sample_video\<lparr>src := ''a.m3u8''\<rparr>)"
  let ?after = "[Pause, SetControlsOpen False]"
  let ?end = "run desktop_browser ?after (step desktop_browser (MouseMove 1000 1000) ?w)"
  have a: "isDesktop desktop_browser" and b: "\<not> isMobile desktop_browser"
    by (simp_all add: desktop_browser_def)
  have c: "?w = run desktop_browser [SetControlsOpen True] ?m"
    by simp
  have d: "videoRef ?w = Some ?v"
    by (simp add: eval_defs)
  have e: "\<forall>e \<in> set ?after. \<forall>x y. e \<noteq> MouseMove x y"
    by simp
  have f: "\<not> inside 1000 1000 (boundingClientRect ?v)"
    by (simp add: eval_defs)
  have g: "controlsOpen ?w"
    by (simp add: eval_defs)
  have h: "visible ?end"
    by (simp add: eval_defs)
  from desktop_controls_visibility [OF a b c d e, of 1000 1000] g h have "show_prop ?end"
    by blast
  with a b d f show ?thesis
    by blast
qed

text \<open>
  C8 as stated fails: the pin is set, the pointer moves to a point outside the bounding
  box, the pin is cleared. The pointer's last known position is outside and the pin is not
  set, yet the controls are still shown: the listener stored the pin's value of the moment
  of the move in \<open>controls\<close>.
\<close>

theorem unpinning_outside_keeps_controls:
  "\<not> inside 1000 1000 sample_rect
   \<and> \<not> controlsOpen (run desktop_browser [SetControlsOpen True, MouseMove 1000 1000, SetControlsOpen False]
         (mount desktop_browser (init_widget desktop_browser True ''a.m3u8'' (Some sample_video))))
   \<and> show_prop (run desktop_browser [SetControlsOpen True, MouseMove 1000 1000, SetControlsOpen False]
         (mount desktop_browser (init_widget desktop_browser True ''a.m3u8'' (Some sample_video))))"
  by (simp add: eval_defs)

subsection \<open>The hide timer on mobile\<close>

text \<open>What a single play does, and what a pause or four seconds after it do.\<close>

lemma onPlay_arms_timer:
  assumes "isMobile p"
  shows "timers (onPlay p w) = timers w @ [(nextTimerId w, now w + 4000)]"
    and "mobileCtrlTimeout (onPlay p w) = Some (nextTimerId w)"
    and "controls (onPlay p w)"
  using assms by (simp_all add: onPlay_def Let_def)

lemma onPause_cancels_latest:
  assumes "isMobile p"
  shows "timers (onPause p (onPlay p w)) = filter (\<lambda>x. fst x \<noteq> nextTimerId w) (timers w)"
  using assms by (simp add: onPause_def onPlay_def clearTimeout_def Let_def)

lemma elapse_after_play_hides:
  assumes "isMobile p"
  shows "\<not> controls (elapse 4000 (onPlay p w))"
  using assms by (simp add: elapse_def onPlay_def Let_def)

text \<open>
  C9: \<open>onPlay\<close> arms a new timer without clearing the one whose id is held in
  \<open>mobileCtrlTimeout\<close>, and overwrites that id. After two play events with no pause between
  them (as after a reload with autoplay) two hide timers are pending, due at 4000 and
  5000 ms. The pause that follows clears only the second; the first is still pending, and
  when it fires it hides the controls, which the pause had left shown.
\<close>

theorem replay_stacks_hide_timers:
  "isMobile android_phone
   \<and> map snd (timers (run android_phone [Play, Elapse 1000, Play]
        (mount android_phone (init_widget android_phone True ''a.m3u8'' (Some sample_video)))))
     = [4000, 5000]
   \<and> map snd (timers (run android_phone [Play, Elapse 1000, Play, Elapse 1000, Pause]
        (mount android_phone (init_widget android_phone True ''a.m3u8'' (Some sample_video)))))
     = [4000]
   \<and> controls (run android_phone [Play, Elapse 1000, Play, Elapse 1000, Pause]
        (mount android_phone (init_widget android_phone True ''a.m3u8'' (Some sample_video))))
   \<and> \<not> controls (run android_phone [Play, Elapse 1000, Play, Elapse 1000, Pause, Elapse 2000]
        (mount android_phone (init_widget android_phone True ''a.m3u8'' (Some sample_video))))"
  by (simp add: eval_defs)

end
